theory Spec2Isabelle
  imports Main "HOL-Library.Sublist" "HOL-Library.AList"
begin

section \<open>Text\<close>

text \<open>
  A Python \<open>str\<close> is a sequence of Unicode code points, so text is a list of
  naturals here (an emoji is one element). \<open>str\<close> embeds an ASCII literal of the
  source.
\<close>

type_synonym pystr = "nat list"

definition str :: "string \<Rightarrow> pystr" where
  "str cs = map of_char cs"

text \<open>
  \<open>isspace\<close> is the set of code points that \<open>str.strip()\<close> removes when called
  without an argument (CPython's whitespace table): TAB..CR, FS..US, SPACE, NEL, NBSP,
  U+1680, U+2000..U+200A, U+2028, U+2029, U+202F, U+205F, U+3000.
\<close>

definition isspace :: "nat \<Rightarrow> bool" where
  "isspace c \<longleftrightarrow>
     (9 \<le> c \<and> c \<le> 13) \<or> (28 \<le> c \<and> c \<le> 32) \<or> c = 133 \<or> c = 160 \<or> c = 5760 \<or>
     (8192 \<le> c \<and> c \<le> 8202) \<or> c = 8232 \<or> c = 8233 \<or> c = 8239 \<or> c = 8287 \<or> c = 12288"

definition strip :: "pystr \<Rightarrow> pystr" where
  "strip s = rev (dropWhile isspace (rev (dropWhile isspace s)))"

section \<open>Values held in the history\<close>

text \<open>
  \<open>st.session_state.history\<close> is a Python list. The send handler appends dicts to
  it, and \<open>load_history_from_disk\<close> installs whatever list \<open>json.load\<close> produced
  without looking at its elements, so an element is any JSON value. A dict is an
  association list in insertion order. JSON numbers with a fraction are left out: the
  program never creates one.
\<close>

datatype json =
    JNull
  | JBool bool
  | JInt int
  | JStr pystr
  | JList "json list"
  | JObj "(pystr \<times> json) list"

text \<open>Exceptions that an \<open>except Exception\<close> clause of the program receives;
  only \<open>str(e)\<close> is ever used.\<close>

datatype py_exn = RuntimeError pystr | CollaboratorError pystr

fun exn_str :: "py_exn \<Rightarrow> pystr" where
  "exn_str (RuntimeError m) = m"
| "exn_str (CollaboratorError m) = m"

text \<open>Exceptions that no handler of the program catches: the script run stops there.\<close>

datatype crash = TypeError | AttributeError | DecodeCrash

text \<open>\<open>d.get(k, default)\<close>: only a dict has the method.\<close>

fun dict_get :: "json \<Rightarrow> pystr \<Rightarrow> json \<Rightarrow> crash + json" where
  "dict_get (JObj kvs) k dflt = Inr (case map_of kvs k of None \<Rightarrow> dflt | Some v \<Rightarrow> v)"
| "dict_get _ k dflt = Inl AttributeError"

text \<open>\<open>d[k] = v\<close> with a string key: a dict replaces the value of an existing key
  in place and appends a new key; every other JSON value raises \<open>TypeError\<close>.\<close>

fun dict_setitem :: "json \<Rightarrow> pystr \<Rightarrow> json \<Rightarrow> crash + json" where
  "dict_setitem (JObj kvs) k v = Inr (JObj (AList.update k v kvs))"
| "dict_setitem _ k v = Inl TypeError"

text \<open>Python truth value, as \<open>not x\<close> reads it.\<close>

fun truthy :: "json \<Rightarrow> bool" where
  "truthy JNull = False"
| "truthy (JBool b) = b"
| "truthy (JInt n) = (n \<noteq> 0)"
| "truthy (JStr s) = (s \<noteq> [])"
| "truthy (JList xs) = (xs \<noteq> [])"
| "truthy (JObj kvs) = (kvs \<noteq> [])"

text \<open>The value an entry holds under a key; nothing for a value that is not a dict.\<close>

fun field :: "json \<Rightarrow> pystr \<Rightarrow> json option" where
  "field (JObj kvs) k = map_of kvs k"
| "field _ k = None"

section \<open>Session state\<close>

record achievements =
  questions_today :: int
  first_upload_done :: bool

record 'img session =
  history :: "json list"
  current_image :: "'img option"
  persist_opt_in :: bool
  achievements :: achievements

definition init_session :: "'img session" where
  "init_session =
     \<lparr>history = [], current_image = None, persist_opt_in = False,
      achievements = \<lparr>questions_today = 0, first_upload_done = False\<rparr>\<rparr>"

text \<open>What a handler shows to the user.\<close>

datatype ui_msg =
    St_error pystr
  | St_warning pystr
  | St_success pystr
  | St_info pystr
  | Bubble_user json
  | Bubble_assistant json

section \<open>History file\<close>

text \<open>
  \<open>history.json\<close> is missing, present but not openable, or present with some text.
  The \<open>json\<close> module and the disk are outside the program: \<open>dumps\<close> is the text
  \<open>json.dump\<close> writes for a value, \<open>loads\<close> is \<open>json.load\<close> (\<open>None\<close> when it
  raises), \<open>save_now\<close> is the reading of \<open>now_iso()\<close> inside the save, and
  \<open>write_result\<close> says how opening and writing the file went: through, or
  \<open>open\<close> raised (the file is untouched), or \<open>json.dump\<close> raised after the file
  was opened for writing (the file is left as the environment says: truncated or
  partial). The text of the exception comes with a failure.
\<close>

datatype 't history_file = Missing | Unreadable | File 't

datatype 't write_outcome = WriteOk | OpenFails pystr | WriteFails pystr "'t history_file"

record 't io =
  dumps :: "json \<Rightarrow> 't"
  loads :: "'t \<Rightarrow> json option"
  save_now :: pystr
  write_result :: "'t write_outcome"

definition saved_document :: "pystr \<Rightarrow> json list \<Rightarrow> json" where
  "saved_document now items = JObj [(str ''saved_at'', JStr now), (str ''items'', JList items)]"

definition save_history_to_disk ::
    "'t io \<Rightarrow> 'img session \<Rightarrow> 't history_file \<Rightarrow> 't history_file \<times> ui_msg list" where
  "save_history_to_disk io s d =
     (if \<not> persist_opt_in s then (d, [])
      else (case write_result io of
              WriteOk \<Rightarrow> (File (dumps io (saved_document (save_now io) (history s))), [])
            | OpenFails e \<Rightarrow> (d, [St_warning (str ''Could not save history to disk: '' @ e)])
            | WriteFails e d' \<Rightarrow>
                (d', [St_warning (str ''Could not save history to disk: '' @ e)])))"

text \<open>
  \<open>load_history_from_disk\<close> returns nothing; its effect is the assignment to
  \<open>st.session_state.history\<close>, made only when the file parses to a dict whose
  \<open>items\<close> (default \<open>[]\<close>) is a list. Every other path leaves the session as it
  was: the early \<open>return\<close>, and \<open>except Exception: pass\<close> for a failing open, a
  failing parse and \<open>data.get\<close> on a value that is not a dict.
\<close>

definition load_history_from_disk :: "'t io \<Rightarrow> 'img session \<Rightarrow> 't history_file \<Rightarrow> 'img session" where
  "load_history_from_disk io s d =
     (case d of
        Missing \<Rightarrow> s
      | Unreadable \<Rightarrow> s
      | File c \<Rightarrow>
          (case loads io c of
             None \<Rightarrow> s
           | Some data \<Rightarrow>
               (case dict_get data (str ''items'') (JList []) of
                  Inl _ \<Rightarrow> s
                | Inr (JList xs) \<Rightarrow> s\<lparr>history := xs\<rparr>
                | Inr _ \<Rightarrow> s)))"

definition export_document :: "pystr \<Rightarrow> json list \<Rightarrow> json" where
  "export_document now items =
     JObj [(str ''exported_at'', JStr now), (str ''items'', JList items)]"

definition export_history_bytes :: "'t io \<Rightarrow> pystr \<Rightarrow> 'img session \<Rightarrow> 't" where
  "export_history_bytes io now s = dumps io (export_document now (history s))"

section \<open>Inference collaborator\<close>

text \<open>
  One call of \<open>model.generate_content([question, image])\<close> followed by \<open>resp.text\<close>
  either raises (with the exception's text) or yields the text, which may be empty or
  \<open>None\<close>. The model object is the function from the arguments to that outcome.
\<close>

datatype response = Raises pystr | Returned "pystr option"

type_synonym 'img gen_model = "pystr \<Rightarrow> 'img \<Rightarrow> response"

text \<open>Module initialisation: the model exists only when \<open>API_KEY\<close> is non-empty
  and configuring the SDK did not raise (\<open>Inl\<close>: it raised).\<close>

definition model_init :: "pystr \<Rightarrow> unit + 'img gen_model \<Rightarrow> 'img gen_model option" where
  "model_init api_key sdk =
     (if api_key \<noteq> [] then (case sdk of Inl _ \<Rightarrow> None | Inr m \<Rightarrow> Some m) else None)"

text \<open>\<open>resp.text or "(No text returned)"\<close>.\<close>

fun text_or :: "pystr option \<Rightarrow> pystr \<Rightarrow> pystr" where
  "text_or None dflt = dflt"
| "text_or (Some t) dflt = (if t = [] then dflt else t)"

definition not_configured_msg :: pystr where
  "not_configured_msg = str ''Generative model not configured (missing/invalid GOOGLE_API_KEY).''"

definition generate_answer :: "'img gen_model option \<Rightarrow> pystr \<Rightarrow> 'img \<Rightarrow> py_exn + pystr" where
  "generate_answer model question image_obj =
     (case model of
        None \<Rightarrow> Inl (RuntimeError not_configured_msg)
      | Some m \<Rightarrow>
          (case m question image_obj of
             Raises e \<Rightarrow> Inl (CollaboratorError e)
           | Returned t \<Rightarrow> Inr (text_or t (str ''(No text returned)''))))"

section \<open>Send handler\<close>

text \<open>
  The module globals and clock readings a send uses: \<open>API_KEY\<close>, \<open>model\<close>, the
  text \<open>f"{datetime.now().timestamp()}"\<close> and the reading of \<open>now_iso()\<close> for the
  entry.
\<close>

record 'img env =
  API_KEY :: pystr
  model :: "'img gen_model option"
  id_now :: pystr
  ts_now :: pystr

definition key_missing_msg :: pystr where
  "key_missing_msg = str ''GOOGLE_API_KEY not configured. Add it to your environment or .env file.''"

definition no_image_msg :: pystr where
  "no_image_msg = str ''Please upload an image first.''"

definition no_question_msg :: pystr where
  "no_question_msg = str ''Please enter a question.''"

definition new_entry :: "pystr \<Rightarrow> pystr \<Rightarrow> pystr \<Rightarrow> pystr \<Rightarrow> json" where
  "new_entry i ts q a =
     JObj [(str ''id'', JStr i), (str ''timestamp'', JStr ts), (str ''question'', JStr q),
           (str ''answer'', JStr a), (str ''rating'', JInt 0), (str ''pinned'', JBool False)]"

definition answer_of :: "py_exn + pystr \<Rightarrow> pystr" where
  "answer_of r = (case r of Inl e \<Rightarrow> str ''Error: '' @ exn_str e | Inr a \<Rightarrow> a)"

definition increment_questions :: "'img session \<Rightarrow> 'img session" where
  "increment_questions s =
     s\<lparr>achievements := (achievements s)\<lparr>questions_today := questions_today (achievements s) + 1\<rparr>\<rparr>"

definition send_clicked ::
    "'img env \<Rightarrow> 't io \<Rightarrow> pystr \<Rightarrow> 'img session \<Rightarrow> 't history_file
      \<Rightarrow> 'img session \<times> 't history_file \<times> ui_msg list" where
  "send_clicked env io prompt s d =
     (if API_KEY env = [] then (s, d, [St_error key_missing_msg])
      else (case current_image s of
              None \<Rightarrow> (s, d, [St_error no_image_msg])
            | Some img \<Rightarrow>
                if strip prompt = [] then (s, d, [St_error no_question_msg])
                else
                  (let answer = answer_of (generate_answer (model env) (strip prompt) img);
                       entry = new_entry (id_now env) (ts_now env) (strip prompt) answer;
                       s' = increment_questions (s\<lparr>history := history s @ [entry]\<rparr>);
                       (d', w) = save_history_to_disk io s' d
                   in (s', d', w @ [Bubble_user (JStr (strip prompt)),
                                    Bubble_assistant (JStr answer)]))))"

section \<open>Clear handler\<close>

definition clear_clicked ::
    "'t io \<Rightarrow> 'img session \<Rightarrow> 't history_file \<Rightarrow> 'img session \<times> 't history_file \<times> ui_msg list" where
  "clear_clicked io s d =
     (let s' = s\<lparr>history := []\<rparr>;
          (d', w) = save_history_to_disk io s' d
      in (s', d', w @ [St_success (str ''Session history cleared.'')]))"

section \<open>Reported errors\<close>

text \<open>The spec's names for what the send handler reports with \<open>st.error\<close>.\<close>

definition ConfigurationError :: ui_msg where
  "ConfigurationError = St_error key_missing_msg"

definition is_MissingInputError :: "ui_msg \<Rightarrow> bool" where
  "is_MissingInputError m \<longleftrightarrow> m = St_error no_image_msg \<or> m = St_error no_question_msg"

section \<open>Rating and pinning the last entry\<close>

text \<open>
  The block is rendered only when the history is not empty. The rating comes from
  \<open>st.slider(min_value=1, max_value=5, value=3)\<close>, so the widget only ever
  yields 1..5; the handler itself stores whatever it is given.
\<close>

definition rate_slider_offers :: "int \<Rightarrow> bool" where
  "rate_slider_offers rr \<longleftrightarrow> 1 \<le> rr \<and> rr \<le> 5"

definition save_rating_clicked ::
    "'t io \<Rightarrow> int \<Rightarrow> 'img session \<Rightarrow> 't history_file
      \<Rightarrow> crash + 'img session \<times> 't history_file \<times> ui_msg list" where
  "save_rating_clicked io rr s d =
     (if history s = [] then Inr (s, d, [])
      else (case dict_setitem (last (history s)) (str ''rating'') (JInt rr) of
              Inl c \<Rightarrow> Inl c
            | Inr e \<Rightarrow>
                (let s' = s\<lparr>history := butlast (history s) @ [e]\<rparr>;
                     (d', w) = save_history_to_disk io s' d
                 in Inr (s', d', w @ [St_success (str ''Thanks for rating!'')]))))"

definition pin_last_clicked ::
    "'t io \<Rightarrow> 'img session \<Rightarrow> 't history_file
      \<Rightarrow> crash + 'img session \<times> 't history_file \<times> ui_msg list" where
  "pin_last_clicked io s d =
     (if history s = [] then Inr (s, d, [])
      else (case dict_get (last (history s)) (str ''pinned'') (JBool False) of
              Inl c \<Rightarrow> Inl c
            | Inr p \<Rightarrow>
                (case dict_setitem (last (history s)) (str ''pinned'') (JBool (\<not> truthy p)) of
                   Inl c \<Rightarrow> Inl c
                 | Inr e \<Rightarrow>
                     (let s' = s\<lparr>history := butlast (history s) @ [e]\<rparr>;
                          (d', w) = save_history_to_disk io s' d
                      in Inr (s', d', w @ [St_info (str ''Pinned toggled.'')])))))"

section \<open>Pinning from the sidebar\<close>

text \<open>
  The sidebar shows \<open>reversed(history[-6:])\<close>, one row and one pin button per
  entry. Rendering a row reads five fields with \<open>entry.get\<close>, compares the rating
  with 4 and takes \<open>len\<close> of the answer (and slices it when it is long); each of
  these raises on a value of the wrong kind, and the run stops before any later button.
  \<open>render_row\<close> returns the \<open>pinned\<close> value it read. The check of the UI framework
  that widget keys differ is outside the program.
\<close>

fun ge4 :: "json \<Rightarrow> crash + bool" where
  "ge4 (JInt n) = Inr (4 \<le> n)"
| "ge4 (JBool b) = Inr False"
| "ge4 _ = Inl TypeError"

fun shown_answer :: "json \<Rightarrow> crash + json" where
  "shown_answer (JStr a) = Inr (JStr (if length a < 240 then a else take 240 a @ [8230]))"
| "shown_answer (JList xs) = (if length xs < 240 then Inr (JList xs) else Inl TypeError)"
| "shown_answer (JObj kvs) = (if length kvs < 240 then Inr (JObj kvs) else Inl TypeError)"
| "shown_answer _ = Inl TypeError"

definition render_row :: "json \<Rightarrow> crash + json" where
  "render_row entry =
     (case dict_get entry (str ''pinned'') (JBool False) of
        Inl c \<Rightarrow> Inl c
      | Inr pinned \<Rightarrow>
          (case dict_get entry (str ''rating'') (JInt 0) of
             Inl c \<Rightarrow> Inl c
           | Inr r \<Rightarrow>
               (case ge4 r of
                  Inl c \<Rightarrow> Inl c
                | Inr star \<Rightarrow>
                    (case dict_get entry (str ''answer'') (JStr []) of
                       Inl c \<Rightarrow> Inl c
                     | Inr a \<Rightarrow>
                         (case shown_answer a of Inl c \<Rightarrow> Inl c | Inr _ \<Rightarrow> Inr pinned)))))"

fun render_rows :: "json list \<Rightarrow> crash + unit" where
  "render_rows [] = Inr ()"
| "render_rows (e # es) = (case render_row e of Inl c \<Rightarrow> Inl c | Inr _ \<Rightarrow> render_rows es)"

definition sidebar_rows :: "json list \<Rightarrow> json list" where
  "sidebar_rows h = rev (drop (length h - 6) h)"

definition sidebar_pin_clicked ::
    "'t io \<Rightarrow> nat \<Rightarrow> 'img session \<Rightarrow> 't history_file
      \<Rightarrow> crash + 'img session \<times> 't history_file \<times> ui_msg list" where
  "sidebar_pin_clicked io k s d =
     (if length (sidebar_rows (history s)) \<le> k then Inr (s, d, [])
      else (case render_rows (take k (sidebar_rows (history s))) of
              Inl c \<Rightarrow> Inl c
            | Inr _ \<Rightarrow>
                (case render_row (sidebar_rows (history s) ! k) of
                   Inl c \<Rightarrow> Inl c
                 | Inr pinned \<Rightarrow>
                     (case dict_setitem (sidebar_rows (history s) ! k) (str ''pinned'')
                             (JBool (\<not> truthy pinned)) of
                        Inl c \<Rightarrow> Inl c
                      | Inr e \<Rightarrow>
                          (let s' = s\<lparr>history := (history s)[length (history s) - 1 - k := e]\<rparr>;
                               (d', w) = save_history_to_disk io s' d
                           in Inr (s', d', w))))))"

section \<open>Upload\<close>

text \<open>What \<open>Image.open(uploaded).convert("RGB")\<close> does with the uploaded bytes: an
  image, \<open>UnidentifiedImageError\<close>, or another exception, which nothing catches.\<close>

datatype 'img decode = Decoded 'img | Unidentified | DecodeRaises

definition upload ::
    "'img decode option \<Rightarrow> 'img session \<Rightarrow> crash + 'img session \<times> ui_msg list" where
  "upload uploaded s =
     (case uploaded of
        None \<Rightarrow> Inr (s, [St_info (str ''Upload an image to interact with the AI.'')])
      | Some (Decoded img) \<Rightarrow>
          Inr ((if \<not> first_upload_done (achievements s)
                then s\<lparr>current_image := Some img,
                       achievements := (achievements s)\<lparr>first_upload_done := True\<rparr>\<rparr>
                else s\<lparr>current_image := Some img\<rparr>), [])
      | Some Unidentified \<Rightarrow>
          Inr (s\<lparr>current_image := None\<rparr>,
               [St_error (str ''Could not decode image. Upload a valid JPG/PNG.'')])
      | Some DecodeRaises \<Rightarrow> Inl DecodeCrash)"

section \<open>User actions\<close>

text \<open>
  One user action runs one handler. An exception that nothing catches stops the run
  before the handler has assigned anything, so the session and the file are then as
  before. The upload block, which the script executes again on every run while the
  uploader holds a file, is an action of its own here. \<open>step\<close> is the handler of
  an action alone; a whole run of the script is \<open>rerun\<close> below, the reload followed
  by the handler. The code that draws the page between the handlers is left out,
  except for the sidebar rows in front of a pin button. Drawing can stop a run before
  its handler (a widget key used twice, a reloaded entry without the key the chat
  reads, text that the export cannot encode); such a run does what the run of
  \<open>Export\<close> does, so the runs of the model are those of the program and some more.
\<close>

datatype 'img event =
    Send "'img env" pystr
  | Rate int
  | PinLast
  | PinSidebar nat
  | Clear
  | Upload "'img decode option"
  | Export pystr
  | SetPersist bool

definition settle ::
    "'img session \<times> 't history_file
      \<Rightarrow> crash + 'img session \<times> 't history_file \<times> ui_msg list
      \<Rightarrow> 'img session \<times> 't history_file" where
  "settle before r = (case r of Inl c \<Rightarrow> before | Inr (s', d', w) \<Rightarrow> (s', d'))"

fun step :: "'t io \<Rightarrow> 'img event \<Rightarrow> 'img session \<times> 't history_file
      \<Rightarrow> 'img session \<times> 't history_file" where
  "step io (Send env prompt) (s, d) = settle (s, d) (Inr (send_clicked env io prompt s d))"
| "step io (Rate rr) (s, d) = settle (s, d) (save_rating_clicked io rr s d)"
| "step io PinLast (s, d) = settle (s, d) (pin_last_clicked io s d)"
| "step io (PinSidebar k) (s, d) = settle (s, d) (sidebar_pin_clicked io k s d)"
| "step io Clear (s, d) = settle (s, d) (Inr (clear_clicked io s d))"
| "step io (Upload uploaded) (s, d) =
     (case upload uploaded s of Inl c \<Rightarrow> (s, d) | Inr (s', w) \<Rightarrow> (s', d))"
| "step io (Export now) (s, d) = (s, d)"
| "step io (SetPersist b) (s, d) = (s\<lparr>persist_opt_in := b\<rparr>, d)"

text \<open>
  Every run of the script starts by reloading the history from the file when
  persistence was opted in at the end of the previous run, and then reaches the handler
  of the action. A session is a sequence of such runs, each with its own clock readings
  and disk behaviour.
\<close>

definition hydrate :: "'t io \<Rightarrow> 'img session \<times> 't history_file
      \<Rightarrow> 'img session \<times> 't history_file" where
  "hydrate io w =
     (if persist_opt_in (fst w) then (load_history_from_disk io (fst w) (snd w), snd w) else w)"

definition rerun :: "'t io \<Rightarrow> 'img event \<Rightarrow> 'img session \<times> 't history_file
      \<Rightarrow> 'img session \<times> 't history_file" where
  "rerun io ev w = step io ev (hydrate io w)"

fun session_run :: "('t io \<times> 'img event) list \<Rightarrow> 'img session \<times> 't history_file
      \<Rightarrow> 'img session \<times> 't history_file" where
  "session_run [] w = w"
| "session_run ((io, ev) # evs) w = session_run evs (rerun io ev w)"

section \<open>Notions used in the statements\<close>

text \<open>The id texts that the sends of a session read from the clock, and the ids held
  by the entries of a history.\<close>

fun send_ids :: "('t io \<times> 'img event) list \<Rightarrow> pystr list" where
  "send_ids [] = []"
| "send_ids ((io, Send env prompt) # evs) = id_now env # send_ids evs"
| "send_ids ((io, ev) # evs) = send_ids evs"

definition entry_ids :: "json list \<Rightarrow> json option list" where
  "entry_ids h = map (\<lambda>e. field e (str ''id'')) h"

text \<open>A write that fails after opening leaves no text that parses.\<close>

definition partial_write_unparseable :: "'t io \<Rightarrow> bool" where
  "partial_write_unparseable io \<longleftrightarrow>
     (case write_result io of
        WriteFails e (File c) \<Rightarrow> loads io c = None
      | _ \<Rightarrow> True)"

text \<open>What a load would install from the file, if anything.\<close>

definition file_items :: "('t \<Rightarrow> json option) \<Rightarrow> 't history_file \<Rightarrow> json list option" where
  "file_items ld d =
     (case d of
        File c \<Rightarrow>
          (case ld c of
             None \<Rightarrow> None
           | Some data \<Rightarrow>
               (case dict_get data (str ''items'') (JList []) of
                  Inr (JList xs) \<Rightarrow> Some xs
                | _ \<Rightarrow> None))
      | _ \<Rightarrow> None)"

definition good_ids :: "pystr set \<Rightarrow> json list \<Rightarrow> bool" where
  "good_ids U h \<longleftrightarrow> distinct (entry_ids h) \<and> (\<forall>x \<in> set (entry_ids h). \<exists>i \<in> U. x = Some (JStr i))"

definition world_ok ::
    "('t \<Rightarrow> json option) \<Rightarrow> pystr set \<Rightarrow> 'img session \<times> 't history_file \<Rightarrow> bool" where
  "world_ok ld U w \<longleftrightarrow>
     good_ids U (history (fst w)) \<and> (\<forall>xs. file_items ld (snd w) = Some xs \<longrightarrow> good_ids U xs)"


fun is_dict :: "json \<Rightarrow> bool" where
  "is_dict (JObj kvs) = True"
| "is_dict _ = False"

fun is_list :: "json \<Rightarrow> bool" where
  "is_list (JList xs) = True"
| "is_list _ = False"

section \<open>Sample values\<close>

text \<open>
  A storage whose text is either a value itself or garbage (\<open>None\<close>, which does not
  parse), and a stub collaborator that answers every call the same way; both serve to run
  the handlers on concrete inputs.
\<close>

definition direct_io :: "pystr \<Rightarrow> json option write_outcome \<Rightarrow> json option io" where
  "direct_io now w = \<lparr>dumps = Some, loads = id, save_now = now, write_result = w\<rparr>"

definition stub_model :: "response \<Rightarrow> nat gen_model" where
  "stub_model r question image_obj = r"

definition beach_entry :: json where
  "beach_entry =
     new_entry (str ''1700000000.25'') (str ''2023-11-14 22:13:20'')
       (str ''Summarize'') (str ''A calm beach scene.'')"

definition beach_session :: "nat session" where
  "beach_session =
     \<lparr>history = [beach_entry], current_image = Some 7, persist_opt_in = True,
      achievements = \<lparr>questions_today = 1, first_upload_done = True\<rparr>\<rparr>"

definition sample_env :: "nat gen_model option \<Rightarrow> pystr \<Rightarrow> nat env" where
  "sample_env m key =
     \<lparr>API_KEY = key, model = m, id_now = str ''1700000100.5'', ts_now = str ''2023-11-14 22:15:00''\<rparr>"

definition uploaded_session :: "nat session" where
  "uploaded_session =
     \<lparr>history = [], current_image = Some 7, persist_opt_in = False,
      achievements = \<lparr>questions_today = 0, first_upload_done = True\<rparr>\<rparr>"

definition quiet_io :: "json option io" where
  "quiet_io = direct_io (str ''2023-11-14 22:15:01'') WriteOk"

definition lamp_entry :: json where
  "lamp_entry =
     new_entry (str ''1700000200.75'') (str ''2023-11-14 22:16:40'')
       (str ''Caption'') (str ''A lamp.'')"

definition two_entry_session :: "nat session" where
  "two_entry_session =
     \<lparr>history = [beach_entry, lamp_entry], current_image = Some 7, persist_opt_in = False,
      achievements = \<lparr>questions_today = 2, first_upload_done = True\<rparr>\<rparr>"

definition emoji_entry :: json where
  "emoji_entry =
     new_entry (str ''1700000300.5'') (str ''2023-11-14 22:18:20'')
       (str ''Mood? '' @ [128512]) ([26085, 26412, 35486, 32] @ str ''ok '' @ [127958])"

definition emoji_session :: "nat session" where
  "emoji_session =
     \<lparr>history = [beach_entry, emoji_entry], current_image = None, persist_opt_in = True,
      achievements = \<lparr>questions_today = 2, first_upload_done = True\<rparr>\<rparr>"

definition later_env :: "nat gen_model option \<Rightarrow> pystr \<Rightarrow> nat env" where
  "later_env m key =
     \<lparr>API_KEY = key, model = m, id_now = str ''1700000160.75'', ts_now = str ''2023-11-14 22:16:00''\<rparr>"

definition beach_model :: "nat gen_model" where
  "beach_model = stub_model (Returned (Some (str ''A calm beach scene.'')))"

definition two_sends :: "nat env \<Rightarrow> nat env \<Rightarrow> (json option io \<times> nat event) list" where
  "two_sends e1 e2 =
     [(quiet_io, Upload (Some (Decoded 7))), (quiet_io, SetPersist True),
      (quiet_io, Send e1 (str ''Summarize'')), (quiet_io, Send e2 (str ''Caption''))]"





section \<open>Clearing the history\<close>

lemma fst_clear_clicked: "fst (clear_clicked io s d) = s\<lparr>history := []\<rparr>"
  by (simp add: clear_clicked_def Let_def split: prod.split)

text \<open>
  C8. For every session state, clearing empties \<open>history\<close> and leaves
  \<open>achievements\<close> (both \<open>questions_today\<close> and \<open>first_upload_done\<close>),
  \<open>current_image\<close> and the opt-in flag exactly as they were, whatever the disk does.
\<close>

theorem clear_history_frame:
  "history (fst (clear_clicked io s d)) = [] \<and>
   questions_today (achievements (fst (clear_clicked io s d))) = questions_today (achievements s) \<and>
   first_upload_done (achievements (fst (clear_clicked io s d))) = first_upload_done (achievements s) \<and>
   current_image (fst (clear_clicked io s d)) = current_image s \<and>
   persist_opt_in (fst (clear_clicked io s d)) = persist_opt_in s"
  by (simp add: fst_clear_clicked)

theorem clear_history_frame_witness:
  "history (fst (clear_clicked (direct_io (str ''2023-11-14 22:14:00'') WriteOk) beach_session Missing)) = [] \<and>
   questions_today (achievements (fst (clear_clicked (direct_io (str ''2023-11-14 22:14:00'') WriteOk)
      beach_session Missing))) = 1 \<and>
   first_upload_done (achievements (fst (clear_clicked (direct_io (str ''2023-11-14 22:14:00'') WriteOk)
      beach_session Missing))) \<and>
   current_image (fst (clear_clicked (direct_io (str ''2023-11-14 22:14:00'') WriteOk)
      beach_session Missing)) = Some 7 \<and>
   history beach_session \<noteq> []"
  using clear_history_frame [of "direct_io (str ''2023-11-14 22:14:00'') WriteOk" beach_session Missing]
  by (simp add: beach_session_def)

section \<open>Sending a question\<close>

lemma send_clicked_no_key:
  "API_KEY env = [] \<Longrightarrow> send_clicked env io prompt s d = (s, d, [St_error key_missing_msg])"
  by (simp add: send_clicked_def)

lemma send_clicked_no_image:
  "API_KEY env \<noteq> [] \<Longrightarrow> current_image s = None \<Longrightarrow>
   send_clicked env io prompt s d = (s, d, [St_error no_image_msg])"
  by (simp add: send_clicked_def)

lemma send_clicked_no_question:
  "API_KEY env \<noteq> [] \<Longrightarrow> current_image s = Some img \<Longrightarrow> strip prompt = [] \<Longrightarrow>
   send_clicked env io prompt s d = (s, d, [St_error no_question_msg])"
  by (simp add: send_clicked_def)

lemma send_clicked_accepted:
  assumes "API_KEY env \<noteq> []" and "current_image s = Some img" and "strip prompt \<noteq> []"
  shows "send_clicked env io prompt s d =
     (let answer = answer_of (generate_answer (model env) (strip prompt) img);
          s' = increment_questions
                 (s\<lparr>history := history s @ [new_entry (id_now env) (ts_now env) (strip prompt) answer]\<rparr>)
      in (s', fst (save_history_to_disk io s' d),
          snd (save_history_to_disk io s' d) @
            [Bubble_user (JStr (strip prompt)), Bubble_assistant (JStr answer)]))"
  using assms by (simp add: send_clicked_def Let_def case_prod_beta)

lemma strip_Summarize: "strip (str '' Summarize  '') = str ''Summarize''"
  by (simp add: strip_def str_def isspace_def)

lemma strip_blank: "strip (str ''  '') = []"
  by (simp add: strip_def str_def isspace_def)

text \<open>
  C1, as the code has it. The first check of the send handler is \<open>not API_KEY\<close>:
  with an empty key the handler reports the configuration error and returns the
  session and the file untouched, whatever the image and the question are (so the
  check comes before the other two).
\<close>

theorem send_without_key_rejected:
  "API_KEY env = [] \<Longrightarrow> send_clicked env io prompt s d = (s, d, [ConfigurationError])"
  by (simp add: send_clicked_no_key ConfigurationError_def)

theorem send_without_key_rejected_witness:
  "send_clicked (sample_env None []) quiet_io (str ''Summarize'') beach_session Missing
     = (beach_session, Missing, [ConfigurationError]) \<and>
   send_clicked (sample_env None []) quiet_io (str ''  '') (init_session :: nat session) Missing
     = (init_session, Missing, [ConfigurationError])"
  using send_without_key_rejected [of "sample_env None []" quiet_io "str ''Summarize''" beach_session Missing]
    send_without_key_rejected [of "sample_env None []" quiet_io "str ''  ''" init_session Missing]
  by (simp add: sample_env_def)

text \<open>
  C1 as stated fails when the key is present but the model is not: module
  initialisation sets \<open>model = None\<close> when configuring the SDK raises, the handler's
  check passes, \<open>generate_answer\<close> raises its "not configured" error, and the handler
  records it as an answer: an entry is appended and the counter goes up.
\<close>

theorem send_model_not_configured_counterexample:
  "model (sample_env (model_init (str ''key'') (Inl ())) (str ''key'')) = None \<and>
   history (fst (send_clicked (sample_env (model_init (str ''key'') (Inl ())) (str ''key''))
      quiet_io (str ''Summarize'') uploaded_session Missing))
     = [new_entry (str ''1700000100.5'') (str ''2023-11-14 22:15:00'') (str ''Summarize'')
          (str ''Error: '' @ not_configured_msg)] \<and>
   questions_today (achievements (fst (send_clicked
      (sample_env (model_init (str ''key'') (Inl ())) (str ''key''))
      quiet_io (str ''Summarize'') uploaded_session Missing))) = 1 \<and>
   questions_today (achievements uploaded_session) = 0 \<and>
   snd (snd (send_clicked (sample_env (model_init (str ''key'') (Inl ())) (str ''key''))
      quiet_io (str ''Summarize'') uploaded_session Missing)) \<noteq> [ConfigurationError]"
proof -
  have key: "str ''key'' \<noteq> []" by (simp add: str_def)
  have q: "strip (str ''Summarize'') = str ''Summarize''"
    by (simp add: strip_def str_def isspace_def)
  have q0: "str ''Summarize'' \<noteq> []" by (simp add: str_def)
  have m: "model_init (str ''key'') (Inl ()) = (None :: nat gen_model option)"
    using key by (simp add: model_init_def)
  have "send_clicked (sample_env (model_init (str ''key'') (Inl ())) (str ''key''))
      quiet_io (str ''Summarize'') uploaded_session Missing
    = (increment_questions (uploaded_session\<lparr>history :=
         [new_entry (str ''1700000100.5'') (str ''2023-11-14 22:15:00'') (str ''Summarize'')
            (str ''Error: '' @ not_configured_msg)]\<rparr>),
       Missing,
       [Bubble_user (JStr (str ''Summarize'')),
        Bubble_assistant (JStr (str ''Error: '' @ not_configured_msg))])"
    using key q0
    by (subst send_clicked_accepted [where img = 7])
       (simp_all add: sample_env_def uploaded_session_def q m generate_answer_def answer_of_def
          save_history_to_disk_def increment_questions_def Let_def quiet_io_def)
  then show ?thesis
    by (simp add: m sample_env_def increment_questions_def uploaded_session_def
        ConfigurationError_def)
qed

lemma strip_Summarize_plain: "strip (str ''Summarize'') = str ''Summarize''"
  by (simp add: strip_def str_def isspace_def)

lemma sample_strings_nonempty:
  "str ''key'' \<noteq> []" "str ''Summarize'' \<noteq> []" "str ''A calm beach scene.'' \<noteq> []"
  "str ''(No text returned)'' \<noteq> []"
  by (simp_all add: str_def)

text \<open>
  C2, as the code has it. When the key is present, an image is set, the trimmed
  question is non-empty and the collaborator returns a non-empty text, the send appends
  exactly one entry (the trimmed question, the returned text, rating 0, not pinned, id
  and timestamp read from the clock at the send) and adds 1 to \<open>questions_today\<close>;
  nothing else of the session changes.
\<close>

theorem send_success_appends_entry:
  assumes "API_KEY env \<noteq> []" and "current_image s = Some img" and "strip prompt \<noteq> []"
    and "model env = Some m" and "m (strip prompt) img = Returned (Some t)" and "t \<noteq> []"
  shows "history (fst (send_clicked env io prompt s d)) =
           history s @
           [JObj [(str ''id'', JStr (id_now env)), (str ''timestamp'', JStr (ts_now env)),
                  (str ''question'', JStr (strip prompt)), (str ''answer'', JStr t),
                  (str ''rating'', JInt 0), (str ''pinned'', JBool False)]] \<and>
         questions_today (achievements (fst (send_clicked env io prompt s d))) =
           questions_today (achievements s) + 1 \<and>
         first_upload_done (achievements (fst (send_clicked env io prompt s d))) =
           first_upload_done (achievements s) \<and>
         current_image (fst (send_clicked env io prompt s d)) = current_image s \<and>
         persist_opt_in (fst (send_clicked env io prompt s d)) = persist_opt_in s"
proof -
  have "answer_of (generate_answer (model env) (strip prompt) img) = t"
    using assms(4-6) by (simp add: generate_answer_def answer_of_def)
  then show ?thesis
    using assms(1-3)
    by (simp add: send_clicked_accepted [where img = img] Let_def increment_questions_def
        new_entry_def)
qed

theorem send_success_appends_entry_witness:
  "history (fst (send_clicked
      (sample_env (Some (stub_model (Returned (Some (str ''A calm beach scene.''))))) (str ''key''))
      quiet_io (str '' Summarize  '') uploaded_session Missing)) =
     [JObj [(str ''id'', JStr (str ''1700000100.5'')),
            (str ''timestamp'', JStr (str ''2023-11-14 22:15:00'')),
            (str ''question'', JStr (str ''Summarize'')),
            (str ''answer'', JStr (str ''A calm beach scene.'')),
            (str ''rating'', JInt 0), (str ''pinned'', JBool False)]] \<and>
   questions_today (achievements (fst (send_clicked
      (sample_env (Some (stub_model (Returned (Some (str ''A calm beach scene.''))))) (str ''key''))
      quiet_io (str '' Summarize  '') uploaded_session Missing))) = 1"
  using send_success_appends_entry
    [of "sample_env (Some (stub_model (Returned (Some (str ''A calm beach scene.''))))) (str ''key'')"
        uploaded_session 7 "str '' Summarize  ''"
        "stub_model (Returned (Some (str ''A calm beach scene.'')))" "str ''A calm beach scene.''"
        quiet_io Missing]
  by (simp add: sample_env_def uploaded_session_def stub_model_def strip_Summarize
      sample_strings_nonempty)

text \<open>
  C2 as stated fails for a collaborator that returns the empty text: the entry's answer
  is then the placeholder of \<open>generate_answer\<close>, not the returned text.
\<close>

theorem send_empty_text_counterexample:
  "history (fst (send_clicked (sample_env (Some (stub_model (Returned (Some [])))) (str ''key''))
      quiet_io (str ''Summarize'') uploaded_session Missing)) =
     [new_entry (str ''1700000100.5'') (str ''2023-11-14 22:15:00'') (str ''Summarize'')
        (str ''(No text returned)'')] \<and>
   str ''(No text returned)'' \<noteq> []"
proof -
  have "answer_of (generate_answer
          (model (sample_env (Some (stub_model (Returned (Some [])))) (str ''key'')))
          (strip (str ''Summarize'')) 7) = str ''(No text returned)''"
    by (simp add: sample_env_def generate_answer_def answer_of_def stub_model_def)
  then show ?thesis
    by (simp add: send_clicked_accepted [where img = 7] sample_env_def uploaded_session_def
        strip_Summarize_plain sample_strings_nonempty Let_def increment_questions_def)
qed

text \<open>
  C3. When the key is present, an image is set, the trimmed question is non-empty and
  the call of \<open>generate_answer\<close> raises an exception \<open>e\<close>, the send still returns
  normally: it appends exactly one entry whose answer is \<open>"Error: "\<close> followed by
  \<open>str(e)\<close> (so the exception's message is a substring of the answer), it adds 1 to
  \<open>questions_today\<close>, and what it shows are the two chat bubbles after the save's
  messages, no error.
\<close>

theorem send_captures_exception:
  assumes "API_KEY env \<noteq> []" and "current_image s = Some img" and "strip prompt \<noteq> []"
    and "generate_answer (model env) (strip prompt) img = Inl e"
  shows "history (fst (send_clicked env io prompt s d)) =
           history s @
           [JObj [(str ''id'', JStr (id_now env)), (str ''timestamp'', JStr (ts_now env)),
                  (str ''question'', JStr (strip prompt)),
                  (str ''answer'', JStr (str ''Error: '' @ exn_str e)),
                  (str ''rating'', JInt 0), (str ''pinned'', JBool False)]] \<and>
         sublist (exn_str e) (str ''Error: '' @ exn_str e) \<and>
         questions_today (achievements (fst (send_clicked env io prompt s d))) =
           questions_today (achievements s) + 1 \<and>
         persist_opt_in (fst (send_clicked env io prompt s d)) = persist_opt_in s \<and>
         snd (snd (send_clicked env io prompt s d)) =
           snd (save_history_to_disk io (fst (send_clicked env io prompt s d)) d) @
           [Bubble_user (JStr (strip prompt)),
            Bubble_assistant (JStr (str ''Error: '' @ exn_str e))]"
proof -
  have "answer_of (generate_answer (model env) (strip prompt) img) = str ''Error: '' @ exn_str e"
    using assms(4) by (simp add: answer_of_def)
  then show ?thesis
    using assms(1-3)
    by (simp add: send_clicked_accepted [where img = img] Let_def increment_questions_def
        new_entry_def)
qed

theorem send_captures_exception_witness:
  "history (fst (send_clicked (sample_env (Some (stub_model (Raises (str ''timeout'')))) (str ''key''))
      quiet_io (str ''Summarize'') uploaded_session Missing)) =
     [JObj [(str ''id'', JStr (str ''1700000100.5'')),
            (str ''timestamp'', JStr (str ''2023-11-14 22:15:00'')),
            (str ''question'', JStr (str ''Summarize'')),
            (str ''answer'', JStr (str ''Error: timeout'')),
            (str ''rating'', JInt 0), (str ''pinned'', JBool False)]] \<and>
   sublist (str ''timeout'') (str ''Error: timeout'') \<and>
   questions_today (achievements (fst (send_clicked
      (sample_env (Some (stub_model (Raises (str ''timeout'')))) (str ''key''))
      quiet_io (str ''Summarize'') uploaded_session Missing))) = 1 \<and>
   snd (snd (send_clicked (sample_env (Some (stub_model (Raises (str ''timeout'')))) (str ''key''))
      quiet_io (str ''Summarize'') uploaded_session Missing)) =
     [Bubble_user (JStr (str ''Summarize'')), Bubble_assistant (JStr (str ''Error: timeout''))]"
proof -
  have cat: "str ''Error: '' @ str ''timeout'' = str ''Error: timeout''"
    by (simp add: str_def)
  have g: "generate_answer (model (sample_env (Some (stub_model (Raises (str ''timeout'')))) (str ''key'')))
      (strip (str ''Summarize'')) 7 = Inl (CollaboratorError (str ''timeout''))"
    by (simp add: sample_env_def generate_answer_def stub_model_def)
  show ?thesis
    using send_captures_exception
      [of "sample_env (Some (stub_model (Raises (str ''timeout'')))) (str ''key'')"
          uploaded_session 7 "str ''Summarize''" "CollaboratorError (str ''timeout'')"
          quiet_io Missing, OF _ _ _ g]
    by (simp add: sample_env_def uploaded_session_def strip_Summarize_plain
        sample_strings_nonempty cat save_history_to_disk_def quiet_io_def direct_io_def)
qed

text \<open>
  C4, as the code has it. With the key present, a send with no image, or with an image
  and a question that is empty after trimming, reports a missing-input error and returns
  the session and the file untouched.
\<close>

theorem send_missing_input_rejected:
  assumes "API_KEY env \<noteq> []" and "current_image s = None \<or> strip prompt = []"
  shows "send_clicked env io prompt s d =
           (s, d, [St_error (if current_image s = None then no_image_msg else no_question_msg)]) \<and>
         is_MissingInputError
           (St_error (if current_image s = None then no_image_msg else no_question_msg))"
proof (cases "current_image s")
  case None
  then show ?thesis
    using assms(1) by (simp add: send_clicked_no_image is_MissingInputError_def)
next
  case (Some img)
  then show ?thesis
    using assms by (simp add: send_clicked_no_question is_MissingInputError_def)
qed

theorem send_missing_input_rejected_witness:
  "send_clicked (sample_env None (str ''key'')) quiet_io (str ''Summarize'')
      (init_session :: nat session) Missing = (init_session, Missing, [St_error no_image_msg]) \<and>
   send_clicked (sample_env None (str ''key'')) quiet_io (str ''  '')
      uploaded_session Missing = (uploaded_session, Missing, [St_error no_question_msg]) \<and>
   is_MissingInputError (St_error no_image_msg) \<and> is_MissingInputError (St_error no_question_msg)"
  using send_missing_input_rejected
      [of "sample_env None (str ''key'')" init_session "str ''Summarize''" quiet_io Missing]
    send_missing_input_rejected
      [of "sample_env None (str ''key'')" uploaded_session "str ''  ''" quiet_io Missing]
  by (simp add: sample_env_def init_session_def uploaded_session_def strip_blank
      sample_strings_nonempty)

text \<open>
  C4 as stated fails when the key is empty: the first check wins, and a send with no
  image is answered with the configuration error, which is not a missing-input error.
\<close>

theorem send_no_image_no_key_counterexample:
  "current_image (init_session :: nat session) = None \<and>
   snd (snd (send_clicked (sample_env None []) quiet_io (str ''Summarize'')
      (init_session :: nat session) Missing)) = [ConfigurationError] \<and>
   \<not> is_MissingInputError ConfigurationError"
  by (simp add: send_clicked_no_key sample_env_def init_session_def ConfigurationError_def
      is_MissingInputError_def key_missing_msg_def no_image_msg_def no_question_msg_def str_def)

section \<open>Rating\<close>

lemma save_rating_clicked_dict:
  assumes "history s \<noteq> []" and "last (history s) = JObj kvs"
  shows "save_rating_clicked io rr s d =
     (let s' = s\<lparr>history := butlast (history s) @
                  [JObj (AList.update (str ''rating'') (JInt rr) kvs)]\<rparr>
      in Inr (s', fst (save_history_to_disk io s' d),
              snd (save_history_to_disk io s' d) @ [St_success (str ''Thanks for rating!'')]))"
  using assms by (simp add: save_rating_clicked_def Let_def case_prod_beta)

text \<open>
  C7, as the code has it. The rating control only offers 1..5, and the handler has no
  range check and no rejection: for every value it is given (so for every value in
  1..5), when the last entry is a dict its \<open>rating\<close> becomes that value, in place; the
  other keys of that entry, the other entries and the rest of the session stay as they
  were.
\<close>

theorem save_rating_stores_value:
  assumes "history s \<noteq> []" and "last (history s) = JObj kvs"
  shows "save_rating_clicked io rr s d =
           Inr (s\<lparr>history := butlast (history s) @
                      [JObj (AList.update (str ''rating'') (JInt rr) kvs)]\<rparr>,
                fst (save_history_to_disk io
                  (s\<lparr>history := butlast (history s) @
                      [JObj (AList.update (str ''rating'') (JInt rr) kvs)]\<rparr>) d),
                snd (save_history_to_disk io
                  (s\<lparr>history := butlast (history s) @
                      [JObj (AList.update (str ''rating'') (JInt rr) kvs)]\<rparr>) d) @
                [St_success (str ''Thanks for rating!'')]) \<and>
         field (JObj (AList.update (str ''rating'') (JInt rr) kvs)) (str ''rating'') = Some (JInt rr) \<and>
         (\<forall>k. k \<noteq> str ''rating'' \<longrightarrow>
            field (JObj (AList.update (str ''rating'') (JInt rr) kvs)) k = field (JObj kvs) k)"
  using assms by (simp add: save_rating_clicked_dict Let_def update_conv')

theorem save_rating_stores_value_witness:
  "rate_slider_offers 5 \<and>
   save_rating_clicked quiet_io 5 two_entry_session Missing =
     Inr (two_entry_session\<lparr>history :=
            [beach_entry,
             JObj [(str ''id'', JStr (str ''1700000200.75'')),
                   (str ''timestamp'', JStr (str ''2023-11-14 22:16:40'')),
                   (str ''question'', JStr (str ''Caption'')),
                   (str ''answer'', JStr (str ''A lamp.'')),
                   (str ''rating'', JInt 5), (str ''pinned'', JBool False)]]\<rparr>,
          Missing, [St_success (str ''Thanks for rating!'')])"
proof -
  have ne: "history two_entry_session \<noteq> []"
    by (simp add: two_entry_session_def)
  have l: "last (history two_entry_session) =
      JObj [(str ''id'', JStr (str ''1700000200.75'')),
            (str ''timestamp'', JStr (str ''2023-11-14 22:16:40'')),
            (str ''question'', JStr (str ''Caption'')),
            (str ''answer'', JStr (str ''A lamp.'')),
            (str ''rating'', JInt 0), (str ''pinned'', JBool False)]"
    by (simp add: two_entry_session_def lamp_entry_def new_entry_def)
  show ?thesis
    using save_rating_stores_value [OF ne l, of quiet_io 5 Missing]
    by (simp add: rate_slider_offers_def two_entry_session_def save_history_to_disk_def str_def)
qed

text \<open>
  C7 as stated fails outside 1..5: handed 7, the handler raises nothing and stores 7.
\<close>

theorem save_rating_out_of_range_counterexample:
  "\<not> rate_slider_offers 7 \<and>
   save_rating_clicked quiet_io 7 two_entry_session Missing =
     Inr (two_entry_session\<lparr>history :=
            [beach_entry,
             JObj [(str ''id'', JStr (str ''1700000200.75'')),
                   (str ''timestamp'', JStr (str ''2023-11-14 22:16:40'')),
                   (str ''question'', JStr (str ''Caption'')),
                   (str ''answer'', JStr (str ''A lamp.'')),
                   (str ''rating'', JInt 7), (str ''pinned'', JBool False)]]\<rparr>,
          Missing, [St_success (str ''Thanks for rating!'')]) \<and>
   field (last (history two_entry_session)) (str ''rating'') = Some (JInt 0)"
  by (simp add: rate_slider_offers_def save_rating_clicked_def two_entry_session_def
      lamp_entry_def new_entry_def save_history_to_disk_def str_def)

section \<open>Which ratings an action can change\<close>








lemma sidebar_rows_nth:
  assumes "k < length (sidebar_rows h)"
  shows "sidebar_rows h ! k = h ! (length h - 1 - k)"
proof -
  have k: "k < length h - (length h - 6)"
    using assms by (simp add: sidebar_rows_def)
  then have "rev (drop (length h - 6) h) ! k = drop (length h - 6) h ! (length h - (length h - 6) - Suc k)"
    by (simp add: rev_nth)
  also have "\<dots> = h ! (length h - 6 + (length h - (length h - 6) - Suc k))"
    using k by simp
  also have "length h - 6 + (length h - (length h - 6) - Suc k) = length h - 1 - k"
    using k by arith
  finally show ?thesis
    by (simp add: sidebar_rows_def)
qed







section \<open>Saving and loading the history\<close>

lemma items_of_saved_document:
  "dict_get (saved_document now items) (str ''items'') (JList []) = Inr (JList items)"
  by (simp add: saved_document_def str_def)

text \<open>
  C5. With persistence opted in, when the write goes through and \<open>json.load\<close> reads
  back the document that \<open>json.dump\<close> wrote, saving a session and then loading the
  file (into any session) shows no warning and installs a history equal to the one
  saved. The history is arbitrary: empty, one entry, many, any code points.
\<close>

theorem save_then_load_round_trip:
  assumes "persist_opt_in s" and "write_result io = WriteOk"
    and "loads io (dumps io (saved_document (save_now io) (history s))) =
           Some (saved_document (save_now io) (history s))"
  shows "snd (save_history_to_disk io s d) = [] \<and>
         history (load_history_from_disk io s0 (fst (save_history_to_disk io s d))) = history s"
  using assms
  by (simp add: save_history_to_disk_def load_history_from_disk_def items_of_saved_document)

theorem save_then_load_round_trip_witness:
  "persist_opt_in emoji_session \<and>
   history (load_history_from_disk quiet_io (init_session :: nat session)
      (fst (save_history_to_disk quiet_io emoji_session Missing))) = [beach_entry, emoji_entry] \<and>
   history (load_history_from_disk quiet_io beach_session
      (fst (save_history_to_disk quiet_io (beach_session\<lparr>history := []\<rparr>) Unreadable))) = []"
  using save_then_load_round_trip
      [where s = emoji_session and io = quiet_io and ?s0.0 = "init_session :: nat session"
         and d = Missing]
    save_then_load_round_trip
      [where s = "beach_session\<lparr>history := []\<rparr>" and io = quiet_io and ?s0.0 = beach_session
         and d = Unreadable]
  by (simp add: emoji_session_def beach_session_def quiet_io_def direct_io_def)

text \<open>
  C6, as the code has it. Loading raises nothing and leaves the session as it was (so
  an empty history stays empty, and a non-empty one stays too) when the file is missing,
  cannot be opened, does not parse, parses to something that is not a dict, or parses to
  a dict whose \<open>items\<close> is not a list. When the dict has no \<open>items\<close> at all, the
  history becomes empty.
\<close>

theorem load_failure_keeps_session:
  "load_history_from_disk io s Missing = s \<and>
   load_history_from_disk io s Unreadable = s \<and>
   (loads io c = None \<longrightarrow> load_history_from_disk io s (File c) = s) \<and>
   (loads io c = Some data \<and> \<not> is_dict data \<longrightarrow> load_history_from_disk io s (File c) = s) \<and>
   (loads io c = Some (JObj kvs) \<and> map_of kvs (str ''items'') = Some v \<and> \<not> is_list v \<longrightarrow>
      load_history_from_disk io s (File c) = s) \<and>
   (loads io c = Some (JObj kvs) \<and> map_of kvs (str ''items'') = None \<longrightarrow>
      load_history_from_disk io s (File c) = s\<lparr>history := []\<rparr>)"
proof -
  have "load_history_from_disk io s (File c) = s" if "loads io c = Some data" and "\<not> is_dict data"
    using that by (cases data) (simp_all add: load_history_from_disk_def)
  moreover have "load_history_from_disk io s (File c) = s"
    if "loads io c = Some (JObj kvs)" and "map_of kvs (str ''items'') = Some v" and "\<not> is_list v"
    using that by (cases v) (simp_all add: load_history_from_disk_def)
  ultimately show ?thesis
    by (simp add: load_history_from_disk_def)
qed

theorem load_failure_keeps_session_witness:
  "load_history_from_disk quiet_io beach_session Missing = beach_session \<and>
   load_history_from_disk quiet_io beach_session Unreadable = beach_session \<and>
   load_history_from_disk quiet_io beach_session (File None) = beach_session \<and>
   load_history_from_disk quiet_io beach_session (File (Some (JList [beach_entry]))) = beach_session \<and>
   load_history_from_disk quiet_io beach_session
     (File (Some (JObj [(str ''items'', JStr (str ''none''))]))) = beach_session \<and>
   load_history_from_disk quiet_io beach_session
     (File (Some (JObj [(str ''saved_at'', JStr (str ''2023-11-14 22:15:01''))])))
     = beach_session\<lparr>history := []\<rparr> \<and>
   load_history_from_disk quiet_io (init_session :: nat session) Missing = init_session"
  using load_failure_keeps_session
      [of quiet_io beach_session None "JList [beach_entry]" "[]" "JNull"]
    load_failure_keeps_session
      [of quiet_io beach_session "Some (JList [beach_entry])" "JList [beach_entry]" "[]" "JNull"]
    load_failure_keeps_session
      [of quiet_io beach_session "Some (JObj [(str ''items'', JStr (str ''none''))])" JNull
          "[(str ''items'', JStr (str ''none''))]" "JStr (str ''none'')"]
    load_failure_keeps_session
      [of quiet_io beach_session
          "Some (JObj [(str ''saved_at'', JStr (str ''2023-11-14 22:15:01''))])" JNull
          "[(str ''saved_at'', JStr (str ''2023-11-14 22:15:01''))]" JNull]
    load_failure_keeps_session [of quiet_io "init_session :: nat session" None JNull "[]" JNull]
  by (simp add: quiet_io_def direct_io_def str_def)

text \<open>
  C6 as stated fails whenever the session already holds entries: with the file missing,
  loading returns without assigning, and the history is what it was, not empty.
\<close>

theorem load_missing_file_counterexample:
  "history (load_history_from_disk quiet_io beach_session Missing) = [beach_entry] \<and>
   history (load_history_from_disk quiet_io beach_session (File None)) = [beach_entry] \<and>
   loads quiet_io None = None"
  by (simp add: load_history_from_disk_def beach_session_def quiet_io_def direct_io_def)

section \<open>Ids of the entries of a session\<close>

lemma load_via_file_items:
  "load_history_from_disk io s d =
     (case file_items (loads io) d of None \<Rightarrow> s | Some xs \<Rightarrow> s\<lparr>history := xs\<rparr>)"
  by (simp add: load_history_from_disk_def file_items_def
      split: history_file.split option.split sum.split json.split)

lemma good_ids_mono: "good_ids U h \<Longrightarrow> U \<subseteq> U' \<Longrightarrow> good_ids U' h"
  unfolding good_ids_def by blast

lemma good_ids_empty: "good_ids U []"
  by (simp add: good_ids_def entry_ids_def)

lemma good_ids_append:
  assumes "good_ids U h" and "i \<notin> U" and "field e (str ''id'') = Some (JStr i)"
  shows "good_ids (insert i U) (h @ [e])"
  using assms by (auto simp: good_ids_def entry_ids_def)

lemma good_ids_same: "entry_ids h' = entry_ids h \<Longrightarrow> good_ids U h \<Longrightarrow> good_ids U h'"
  by (simp add: good_ids_def)

lemma entry_ids_replace_last:
  assumes "h \<noteq> []" and "field e (str ''id'') = field (last h) (str ''id'')"
  shows "entry_ids (butlast h @ [e]) = entry_ids h"
proof -
  have "entry_ids h = entry_ids (butlast h @ [last h])"
    using assms(1) by simp
  also have "\<dots> = entry_ids (butlast h @ [e])"
    using assms(2) by (simp add: entry_ids_def)
  finally show ?thesis by simp
qed

lemma entry_ids_update:
  assumes "i < length h" and "field e (str ''id'') = field (h ! i) (str ''id'')"
  shows "entry_ids (h[i := e]) = entry_ids h"
proof -
  have "entry_ids (h[i := e]) = (entry_ids h)[i := entry_ids h ! i]"
    using assms by (simp add: entry_ids_def map_update)
  then show ?thesis by simp
qed

lemma other_keys_are_not_id: "str ''rating'' \<noteq> str ''id''" "str ''pinned'' \<noteq> str ''id''"
  by (simp_all add: str_def)

lemma dict_setitem_keeps_id:
  "k \<noteq> str ''id'' \<Longrightarrow> dict_setitem x k v = Inr e \<Longrightarrow> field e (str ''id'') = field x (str ''id'')"
  by (cases x) (auto simp: update_conv')

lemma new_entry_id: "field (new_entry i ts q a) (str ''id'') = Some (JStr i)"
  by (simp add: new_entry_def)

lemma send_clicked_shape:
  "(fst (send_clicked env io prompt s d) = s \<and> fst (snd (send_clicked env io prompt s d)) = d) \<or>
   ((\<exists>a. history (fst (send_clicked env io prompt s d)) =
           history s @ [new_entry (id_now env) (ts_now env) (strip prompt) a]) \<and>
    fst (snd (send_clicked env io prompt s d)) =
      fst (save_history_to_disk io (fst (send_clicked env io prompt s d)) d))"
  by (auto simp: send_clicked_def Let_def case_prod_beta increment_questions_def
      split: option.split)

lemma save_rating_clicked_shape:
  assumes "save_rating_clicked io rr s d = Inr (s', d', w)"
  shows "(s' = s \<and> d' = d) \<or>
         (entry_ids (history s') = entry_ids (history s) \<and>
          d' = fst (save_history_to_disk io s' d))"
proof (cases "history s = []")
  case True
  with assms show ?thesis by (simp add: save_rating_clicked_def)
next
  case False
  with assms obtain e where
    e: "dict_setitem (last (history s)) (str ''rating'') (JInt rr) = Inr e"
    and s': "s' = s\<lparr>history := butlast (history s) @ [e]\<rparr>"
    and d': "d' = fst (save_history_to_disk io s' d)"
    by (auto simp: save_rating_clicked_def Let_def case_prod_beta split: sum.splits)
  have "entry_ids (history s') = entry_ids (history s)"
    using entry_ids_replace_last [OF False dict_setitem_keeps_id [OF other_keys_are_not_id(1) e]]
    by (simp add: s')
  with d' show ?thesis by simp
qed

lemma pin_last_clicked_shape:
  assumes "pin_last_clicked io s d = Inr (s', d', w)"
  shows "(s' = s \<and> d' = d) \<or>
         (entry_ids (history s') = entry_ids (history s) \<and>
          d' = fst (save_history_to_disk io s' d))"
proof (cases "history s = []")
  case True
  with assms show ?thesis by (simp add: pin_last_clicked_def)
next
  case False
  with assms obtain p e where
    e: "dict_setitem (last (history s)) (str ''pinned'') (JBool (\<not> truthy p)) = Inr e"
    and s': "s' = s\<lparr>history := butlast (history s) @ [e]\<rparr>"
    and d': "d' = fst (save_history_to_disk io s' d)"
    by (auto simp: pin_last_clicked_def Let_def case_prod_beta split: sum.splits)
  have "entry_ids (history s') = entry_ids (history s)"
    using entry_ids_replace_last [OF False dict_setitem_keeps_id [OF other_keys_are_not_id(2) e]]
    by (simp add: s')
  with d' show ?thesis by simp
qed

lemma sidebar_pin_clicked_shape:
  assumes "sidebar_pin_clicked io k s d = Inr (s', d', w)"
  shows "(s' = s \<and> d' = d) \<or>
         (entry_ids (history s') = entry_ids (history s) \<and>
          d' = fst (save_history_to_disk io s' d))"
proof (cases "length (sidebar_rows (history s)) \<le> k")
  case True
  with assms show ?thesis by (simp add: sidebar_pin_clicked_def)
next
  case False
  then have k: "k < length (sidebar_rows (history s))" by simp
  then have kh: "length (history s) - 1 - k < length (history s)"
    by (auto simp: sidebar_rows_def)
  from assms False obtain p e where
    e: "dict_setitem (sidebar_rows (history s) ! k) (str ''pinned'') (JBool (\<not> truthy p)) = Inr e"
    and s': "s' = s\<lparr>history := (history s)[length (history s) - 1 - k := e]\<rparr>"
    and d': "d' = fst (save_history_to_disk io s' d)"
    by (auto simp: sidebar_pin_clicked_def Let_def case_prod_beta split: sum.splits)
  have "field e (str ''id'') = field (history s ! (length (history s) - 1 - k)) (str ''id'')"
    using dict_setitem_keeps_id [OF other_keys_are_not_id(2) e] sidebar_rows_nth [OF k] by simp
  then have "entry_ids (history s') = entry_ids (history s)"
    using entry_ids_update [OF kh] by (simp add: s')
  with d' show ?thesis by simp
qed

lemma file_items_after_save:
  assumes "dumps io = dp" and "loads io = ld" and "partial_write_unparseable io"
    and "\<forall>h now. ld (dp (saved_document now h)) = Some (saved_document now h)"
    and "file_items ld (fst (save_history_to_disk io s d)) = Some xs"
  shows "xs = history s \<or> file_items ld d = Some xs"
proof (cases "persist_opt_in s")
  case False
  with assms(5) show ?thesis by (simp add: save_history_to_disk_def)
next
  case True
  show ?thesis
  proof (cases "write_result io")
    case WriteOk
    with True assms show ?thesis
      by (simp add: save_history_to_disk_def file_items_def items_of_saved_document)
  next
    case (OpenFails e)
    with True assms(5) show ?thesis by (simp add: save_history_to_disk_def)
  next
    case (WriteFails e d')
    with True assms(2,3,5) show ?thesis
      by (auto simp: save_history_to_disk_def file_items_def partial_write_unparseable_def
          split: history_file.splits)
  qed
qed

lemma world_ok_after_save:
  assumes "dumps io = dp" and "loads io = ld" and "partial_write_unparseable io"
    and "\<forall>h now. ld (dp (saved_document now h)) = Some (saved_document now h)"
    and "world_ok ld U (s, d)" and "good_ids U' (history s')" and "U \<subseteq> U'"
  shows "world_ok ld U' (s', fst (save_history_to_disk io s' d))"
  using file_items_after_save [OF assms(1-4), of s' d] assms(5-7)
  by (auto simp: world_ok_def intro: good_ids_mono)

lemma world_ok_mono: "world_ok ld U w \<Longrightarrow> U \<subseteq> U' \<Longrightarrow> world_ok ld U' w"
  by (auto simp: world_ok_def intro: good_ids_mono)

lemma world_ok_hydrate: "loads io = ld \<Longrightarrow> world_ok ld U w \<Longrightarrow> world_ok ld U (hydrate io w)"
  by (auto simp: world_ok_def hydrate_def load_via_file_items split: option.split)

lemma step_world_ok:
  assumes dp: "dumps io = dp" and ld: "loads io = ld" and pw: "partial_write_unparseable io"
    and rt: "\<forall>h now. ld (dp (saved_document now h)) = Some (saved_document now h)"
    and ok: "world_ok ld U (s :: 'img session, d)"
    and fresh: "set (send_ids [(io, ev)]) \<inter> U = {}"
  shows "world_ok ld (U \<union> set (send_ids [(io, ev)])) (step io ev (s, d))"
proof -
  note saved = world_ok_after_save [OF dp ld pw rt ok]
  have good: "good_ids U (history s)"
    using ok by (simp add: world_ok_def)
  have same_ids: "world_ok ld U (s', fst (save_history_to_disk io s' d))"
    if "entry_ids (history s') = entry_ids (history s)" for s' :: "'img session"
    using saved [of U s'] good_ids_same [OF that good] by simp
  show ?thesis
  proof (cases ev)
    case (Send env prompt)
    let ?r = "send_clicked env io prompt s d"
    have st: "step io ev (s, d) = (fst ?r, fst (snd ?r))"
      by (simp add: Send settle_def case_prod_beta)
    have ids: "send_ids [(io, ev)] = [id_now env]"
      by (simp add: Send)
    from send_clicked_shape [of env io prompt s d] show ?thesis
    proof
      assume "fst ?r = s \<and> fst (snd ?r) = d"
      then show ?thesis
        using world_ok_mono [OF ok, of "U \<union> set (send_ids [(io, ev)])"] by (simp add: st)
    next
      assume app: "(\<exists>a. history (fst ?r) =
            history s @ [new_entry (id_now env) (ts_now env) (strip prompt) a]) \<and>
          fst (snd ?r) = fst (save_history_to_disk io (fst ?r) d)"
      have "id_now env \<notin> U"
        using fresh by (simp add: ids)
      then have "good_ids (insert (id_now env) U) (history (fst ?r))"
        using app good_ids_append [OF good _ new_entry_id] by auto
      then have "world_ok ld (insert (id_now env) U)
          (fst ?r, fst (save_history_to_disk io (fst ?r) d))"
        using saved by blast
      then show ?thesis
        using app by (simp add: st ids)
    qed
  next
    case (Rate rr)
    show ?thesis
    proof (cases "save_rating_clicked io rr s d")
      case (Inl c)
      then show ?thesis using ok by (simp add: Rate settle_def)
    next
      case (Inr r)
      then obtain s' d' w where r: "save_rating_clicked io rr s d = Inr (s', d', w)"
        by (cases r) auto
      then show ?thesis
        using save_rating_clicked_shape [OF r] ok same_ids
        by (auto simp: Rate settle_def)
    qed
  next
    case PinLast
    show ?thesis
    proof (cases "pin_last_clicked io s d")
      case (Inl c)
      then show ?thesis using ok by (simp add: PinLast settle_def)
    next
      case (Inr r)
      then obtain s' d' w where r: "pin_last_clicked io s d = Inr (s', d', w)"
        by (cases r) auto
      then show ?thesis
        using pin_last_clicked_shape [OF r] ok same_ids
        by (auto simp: PinLast settle_def)
    qed
  next
    case (PinSidebar k)
    show ?thesis
    proof (cases "sidebar_pin_clicked io k s d")
      case (Inl c)
      then show ?thesis using ok by (simp add: PinSidebar settle_def)
    next
      case (Inr r)
      then obtain s' d' w where r: "sidebar_pin_clicked io k s d = Inr (s', d', w)"
        by (cases r) auto
      then show ?thesis
        using sidebar_pin_clicked_shape [OF r] ok same_ids
        by (auto simp: PinSidebar settle_def)
    qed
  next
    case Clear
    have "world_ok ld U (s\<lparr>history := []\<rparr>, fst (save_history_to_disk io (s\<lparr>history := []\<rparr>) d))"
      using saved [of U "s\<lparr>history := []\<rparr>"] by (simp add: good_ids_empty)
    then show ?thesis
      by (simp add: Clear settle_def clear_clicked_def Let_def case_prod_beta)
  next
    case (Upload uploaded)
    have "world_ok ld U (s', d)" if "history s' = history s" for s' :: "'img session"
      using ok that by (simp add: world_ok_def)
    then show ?thesis
      using ok
      by (auto simp: Upload upload_def split: sum.splits option.splits decode.splits if_splits)
  next
    case (Export now)
    then show ?thesis using ok by simp
  next
    case (SetPersist b)
    then show ?thesis using ok by (simp add: world_ok_def)
  qed
qed

lemma send_ids_Cons: "send_ids ((io, ev) # evs) = send_ids [(io, ev)] @ send_ids evs"
  by (cases ev) simp_all

lemma session_run_world_ok:
  assumes "\<forall>(io, ev) \<in> set evs. dumps io = dp \<and> loads io = ld \<and> partial_write_unparseable io"
    and "\<forall>h now. ld (dp (saved_document now h)) = Some (saved_document now h)"
    and "distinct (send_ids evs)" and "world_ok ld U w" and "set (send_ids evs) \<inter> U = {}"
  shows "\<exists>U'. world_ok ld U' (session_run evs w)"
  using assms
proof (induction evs arbitrary: U w)
  case Nil
  then show ?case by auto
next
  case (Cons x evs)
  obtain io ev where x: "x = (io, ev)" by (cases x)
  obtain s d where w: "hydrate io w = (s, d)" by (cases "hydrate io w")
  have io: "dumps io = dp" "loads io = ld" "partial_write_unparseable io"
    using Cons.prems(1) by (simp_all add: x)
  have split: "send_ids (x # evs) = send_ids [(io, ev)] @ send_ids evs"
    using send_ids_Cons [of io ev evs] by (simp add: x)
  have "world_ok ld U (s, d)"
    using world_ok_hydrate [OF io(2) Cons.prems(4)] by (simp add: w)
  moreover have "set (send_ids [(io, ev)]) \<inter> U = {}"
    using Cons.prems(5) by (auto simp: split)
  ultimately have ok': "world_ok ld (U \<union> set (send_ids [(io, ev)])) (rerun io ev w)"
    using step_world_ok [OF io Cons.prems(2)] by (simp add: rerun_def w)
  have "\<exists>U'. world_ok ld U' (session_run evs (rerun io ev w))"
  proof (rule Cons.IH [OF _ Cons.prems(2) _ ok'])
    show "\<forall>(io, ev) \<in> set evs. dumps io = dp \<and> loads io = ld \<and> partial_write_unparseable io"
      using Cons.prems(1) by simp
    show "distinct (send_ids evs)"
      using Cons.prems(3) by (simp add: split)
    show "set (send_ids evs) \<inter> (U \<union> set (send_ids [(io, ev)])) = {}"
      using Cons.prems(3,5) by (auto simp: split)
  qed
  then show ?case by (simp add: x)
qed

lemma init_world_ok: "world_ok ld {} (init_session, Missing)"
  by (simp add: world_ok_def init_session_def good_ids_empty file_items_def)

text \<open>
  C9, as the code has it. The id of an entry is the text of the clock reading at its
  send, and nothing else makes ids differ. In every session that starts with no history
  file and an empty history, as long as the sends read pairwise different id texts from
  the clock, the ids of the entries in the history are pairwise distinct after any
  sequence of runs (reload from the file, then send, rate, pin, clear, upload, export or
  persistence switch). The \<open>json\<close> module is assumed to read back what it wrote, and
  a write that fails midway to leave no text that parses.
\<close>

theorem entry_ids_distinct_when_clock_differs:
  assumes "\<forall>(io, ev) \<in> set evs. dumps io = dp \<and> loads io = ld \<and> partial_write_unparseable io"
    and "\<forall>h now. ld (dp (saved_document now h)) = Some (saved_document now h)"
    and "distinct (send_ids evs)"
  shows "distinct (entry_ids (history (fst (session_run evs (init_session, Missing))))) \<and>
         None \<notin> set (entry_ids (history (fst (session_run evs (init_session, Missing)))))"
proof -
  obtain U where "world_ok ld U (session_run evs (init_session, Missing))"
    using session_run_world_ok [OF assms init_world_ok] by auto
  then show ?thesis
    by (auto simp: world_ok_def good_ids_def)
qed

lemma two_sends_history:
  assumes "API_KEY e1 = str ''key''" and "API_KEY e2 = str ''key''"
  shows "history (fst (session_run (two_sends e1 e2) (init_session, Missing))) =
           [new_entry (id_now e1) (ts_now e1) (str ''Summarize'')
              (answer_of (generate_answer (model e1) (str ''Summarize'') 7)),
            new_entry (id_now e2) (ts_now e2) (str ''Caption'')
              (answer_of (generate_answer (model e2) (str ''Caption'') 7))]"
proof -
  have q: "strip (str ''Summarize'') = str ''Summarize''" "strip (str ''Caption'') = str ''Caption''"
    by (simp_all add: strip_def str_def isspace_def)
  have k: "str ''key'' \<noteq> []" "str ''Summarize'' \<noteq> []" "str ''Caption'' \<noteq> []"
    by (simp_all add: str_def)
  have io: "persist_opt_in s \<Longrightarrow> save_history_to_disk quiet_io s d =
      (File (Some (saved_document (str ''2023-11-14 22:15:01'') (history s))), [])"
    for s :: "nat session" and d
    by (simp add: save_history_to_disk_def quiet_io_def direct_io_def)
  have ld: "load_history_from_disk quiet_io s (File (Some (saved_document now h))) = s\<lparr>history := h\<rparr>"
    for s :: "nat session" and now h
    by (simp add: load_history_from_disk_def quiet_io_def direct_io_def items_of_saved_document)
  have ld0: "load_history_from_disk quiet_io s Missing = s" for s :: "nat session"
    by (simp add: load_history_from_disk_def)
  show ?thesis
    using assms k
    by (simp add: two_sends_def rerun_def hydrate_def settle_def upload_def init_session_def
        send_clicked_def Let_def increment_questions_def io ld ld0 q)
qed

lemma two_sends_ids:
  assumes "API_KEY e1 = str ''key''" and "API_KEY e2 = str ''key''"
  shows "entry_ids (history (fst (session_run (two_sends e1 e2) (init_session, Missing)))) =
           [Some (JStr (id_now e1)), Some (JStr (id_now e2))]"
  by (simp add: two_sends_history [OF assms] entry_ids_def new_entry_id)

theorem entry_ids_distinct_when_clock_differs_witness:
  "distinct (send_ids (two_sends (sample_env (Some beach_model) (str ''key''))
      (later_env (Some beach_model) (str ''key'')))) \<and>
   entry_ids (history (fst (session_run
      (two_sends (sample_env (Some beach_model) (str ''key''))
         (later_env (Some beach_model) (str ''key''))) (init_session, Missing)))) =
     [Some (JStr (str ''1700000100.5'')), Some (JStr (str ''1700000160.75''))] \<and>
   distinct (entry_ids (history (fst (session_run
      (two_sends (sample_env (Some beach_model) (str ''key''))
         (later_env (Some beach_model) (str ''key''))) (init_session, Missing)))))"
proof -
  let ?evs = "two_sends (sample_env (Some beach_model) (str ''key''))
      (later_env (Some beach_model) (str ''key''))"
  have ids: "send_ids ?evs = [str ''1700000100.5'', str ''1700000160.75'']"
    by (simp add: two_sends_def sample_env_def later_env_def)
  have d: "distinct (send_ids ?evs)"
    unfolding ids by (simp add: str_def)
  have c: "\<forall>(io, ev) \<in> set ?evs.
      dumps io = Some \<and> loads io = id \<and> partial_write_unparseable io"
    by (simp add: two_sends_def quiet_io_def direct_io_def partial_write_unparseable_def)
  have r: "\<forall>h now. id (Some (saved_document now h)) = Some (saved_document now h)"
    by simp
  have e: "entry_ids (history (fst (session_run ?evs (init_session, Missing)))) =
      [Some (JStr (str ''1700000100.5'')), Some (JStr (str ''1700000160.75''))]"
    by (simp add: two_sends_ids sample_env_def later_env_def)
  show ?thesis
    using entry_ids_distinct_when_clock_differs [OF c r d] d e by simp
qed

text \<open>
  C9 as stated fails when two sends read the same text from the clock: the session
  (upload, opt in, send "Summarize", send "Caption") ends with two different entries that
  hold the same id.
\<close>

theorem same_clock_reading_counterexample:
  "history (fst (session_run
      (two_sends (sample_env (Some beach_model) (str ''key''))
         (sample_env (Some beach_model) (str ''key''))) (init_session, Missing))) =
     [new_entry (str ''1700000100.5'') (str ''2023-11-14 22:15:00'') (str ''Summarize'')
        (str ''A calm beach scene.''),
      new_entry (str ''1700000100.5'') (str ''2023-11-14 22:15:00'') (str ''Caption'')
        (str ''A calm beach scene.'')] \<and>
   str ''Summarize'' \<noteq> str ''Caption'' \<and>
   entry_ids (history (fst (session_run
      (two_sends (sample_env (Some beach_model) (str ''key''))
         (sample_env (Some beach_model) (str ''key''))) (init_session, Missing)))) =
     [Some (JStr (str ''1700000100.5'')), Some (JStr (str ''1700000100.5''))]"
proof -
  have a: "answer_of (generate_answer (Some beach_model) q 7) = str ''A calm beach scene.''" for q
    by (simp add: answer_of_def generate_answer_def beach_model_def stub_model_def
        sample_strings_nonempty)
  have "str ''Summarize'' \<noteq> str ''Caption''"
    by (simp add: str_def)
  then show ?thesis
    by (simp add: two_sends_history sample_env_def a entry_ids_def new_entry_id)
qed

section \<open>Ratings across a whole run\<close>

lemma hydrate_keeps_history_iff:
  "history (fst (hydrate io w)) = history (fst w) \<longleftrightarrow>
     \<not> persist_opt_in (fst w) \<or> file_items (loads io) (snd w) = None \<or>
     file_items (loads io) (snd w) = Some (history (fst w))"
  by (auto simp: hydrate_def load_via_file_items split: option.splits)














end
